theory Spec2Isabelle
  imports Main "HOL-Library.Word"
begin

section \<open>The Vaam transcription command-line tool\<close>

text \<open>
  A shallow embedding of \<^verbatim>\<open>transcribe-vaam-video-with-gemini.ts\<close>. The script is a
  sequence of awaited calls, so it is modelled as a sequential computation over an
  explicit state (the two module globals, what was written to standard output, and
  the files on disk). Everything the script obtains from outside (command line,
  environment, network, clock, model answer) is a field of a \<open>World\<close> record.
\<close>

subsection \<open>Types\<close>

datatype ErrorCode =
    MISSING_ARGUMENT
  | INVALID_URL
  | MISSING_API_KEY
  | VIDEO_EXTRACTION_FAILED
  | VIDEO_DOWNLOAD_FAILED
  | TRANSCRIPTION_FAILED

record ErrorBody =
  code :: ErrorCode
  message :: string
  details :: string
  suggestion :: string

record ErrorResult =
  success :: bool
  error :: ErrorBody

type_synonym bytes = "8 word list"

text \<open>
  The resolver's JSON payload, as the script reads it: the cast
  \<^verbatim>\<open>{ mp4?: string; webm?: string; hls?: string }\<close> is a record of three optional
  strings (\<open>None\<close> is an absent field). \<open>Falsy\<close> stands for a body that parses to a
  falsy JSON value (\<^verbatim>\<open>null\<close>, \<^verbatim>\<open>false\<close>, \<^verbatim>\<open>0\<close>, \<^verbatim>\<open>""\<close>). Any other value
  that is not an object has none of the three properties and reads as the object
  without fields.
\<close>

record MediaDescriptor =
  mp4 :: "string option"
  webm :: "string option"
  hls :: "string option"

datatype Payload = Falsy | Object MediaDescriptor

text \<open>
  A \<^verbatim>\<open>fetch\<close> response. \<open>json\<close> and \<open>arrayBuffer\<close> are what the two body readers
  give: \<open>Inl\<close> is the message of the error they throw.
\<close>

record Response =
  ok :: bool
  status :: nat
  statusText :: string
  json :: "string + Payload"
  arrayBuffer :: "string + bytes"

record World =
  argv :: "string list"  \<comment> \<open>\<^verbatim>\<open>process.argv.slice(2)\<close>\<close>
  GEMINI_API_KEY :: "string option"  \<comment> \<open>\<^verbatim>\<open>process.env.GEMINI_API_KEY\<close>\<close>
  tmpdir :: string  \<comment> \<open>\<^verbatim>\<open>os.tmpdir()\<close>\<close>
  Date_now :: nat  \<comment> \<open>\<^verbatim>\<open>Date.now()\<close> at the download\<close>
  initial_files :: "string \<rightharpoonup> bytes"  \<comment> \<open>the files on disk when the process starts\<close>
  mkdir :: "string \<Rightarrow> string + unit"
  fetch :: "string \<Rightarrow> string + Response"
  Bun_write :: "string \<Rightarrow> bytes \<Rightarrow> string + unit"
  generateContent :: "string \<Rightarrow> bytes \<Rightarrow> string + string"
    \<comment> \<open>the Gemini SDK calls of \<^verbatim>\<open>transcribeVideo\<close>, from the API key and the video\<close>

text \<open>
  One entry per \<^verbatim>\<open>console.log\<close> call. \<open>Json e\<close> is the text
  \<^verbatim>\<open>JSON.stringify(e, null, 2)\<close> of an error object.
\<close>

datatype stdout_item = Line string | Json ErrorResult

record State =
  verbose :: bool
  tempFilePath :: "string option"
  stdout :: "stdout_item list"
  files :: "string \<rightharpoonup> bytes"

text \<open>
  How a computation ends: it returns a value, throws (the error's message), or calls
  \<^verbatim>\<open>process.exit(code)\<close>, which ends the process on the spot.
\<close>

datatype 'a outcome = Return 'a | Throw string | Exit nat

type_synonym 'a comp = "State \<Rightarrow> 'a outcome \<times> State"

subsection \<open>Control flow\<close>

definition return :: "'a \<Rightarrow> 'a comp" where
  "return x st = (Return x, st)"

definition throw :: "string \<Rightarrow> 'a comp" where
  "throw e st = (Throw e, st)"

definition process_exit :: "nat \<Rightarrow> 'a comp" where
  "process_exit c st = (Exit c, st)"

definition bind :: "'a comp \<Rightarrow> ('a \<Rightarrow> 'b comp) \<Rightarrow> 'b comp" where
  "bind m f st =
     (case m st of
        (Return x, st') \<Rightarrow> f x st'
      | (Throw e, st') \<Rightarrow> (Throw e, st')
      | (Exit c, st') \<Rightarrow> (Exit c, st'))"

text \<open>\<^verbatim>\<open>await\<close> of an external call: its value, or its error thrown.\<close>

definition await :: "string + 'a \<Rightarrow> 'a comp" where
  "await r = (case r of Inl e \<Rightarrow> throw e | Inr x \<Rightarrow> return x)"

text \<open>\<^verbatim>\<open>try { body } catch (err) { handler }\<close>: only a thrown error reaches the handler.\<close>

definition try_catch :: "'a comp \<Rightarrow> (string \<Rightarrow> 'a comp) \<Rightarrow> 'a comp" where
  "try_catch body handler st =
     (case body st of
        (Throw e, st') \<Rightarrow> handler e st'
      | (Return x, st') \<Rightarrow> (Return x, st')
      | (Exit c, st') \<Rightarrow> (Exit c, st'))"

text \<open>
  \<^verbatim>\<open>try { body } finally { fin }\<close>: the finally block runs when the body returns or
  throws. \<^verbatim>\<open>process.exit\<close> does not unwind the stack: the process ends inside the
  body and the finally block is not run.
\<close>

definition try_finally :: "'a comp \<Rightarrow> unit comp \<Rightarrow> 'a comp" where
  "try_finally body fin st =
     (case body st of
        (Exit c, st') \<Rightarrow> (Exit c, st')
      | (Return x, st') \<Rightarrow>
          (case fin st' of
             (Return u, st'') \<Rightarrow> (Return x, st'')
           | (Throw e, st'') \<Rightarrow> (Throw e, st'')
           | (Exit c, st'') \<Rightarrow> (Exit c, st''))
      | (Throw e, st') \<Rightarrow>
          (case fin st' of
             (Return u, st'') \<Rightarrow> (Throw e, st'')
           | (Throw e', st'') \<Rightarrow> (Throw e', st'')
           | (Exit c, st'') \<Rightarrow> (Exit c, st'')))"

subsection \<open>JavaScript strings\<close>

text \<open>
  A string is a list of characters, and \<open>length\<close> counts them. Truthiness of an
  optional string: \<^verbatim>\<open>undefined\<close>, \<^verbatim>\<open>null\<close> and \<^verbatim>\<open>""\<close> are falsy.
\<close>

definition truthy :: "string option \<Rightarrow> bool" where
  "truthy v = (case v of None \<Rightarrow> False | Some s \<Rightarrow> s \<noteq> [])"

text \<open>\<^verbatim>\<open>a || b\<close> on optional strings.\<close>

definition js_or :: "string option \<Rightarrow> string option \<Rightarrow> string option" where
  "js_or a b = (if truthy a then a else b)"

definition startsWith :: "string \<Rightarrow> string \<Rightarrow> bool" where
  "startsWith s p = (take (length p) s = p)"

definition array_includes :: "string list \<Rightarrow> string \<Rightarrow> bool" where
  "array_includes xs x = (x \<in> set xs)"

text \<open>A number in a template string: its decimal digits.\<close>

definition digit :: "nat \<Rightarrow> char" where
  "digit n = ''0123456789'' ! n"

function show_nat :: "nat \<Rightarrow> string" where
  "show_nat n =
     (if n < 10 then [digit n]
      else show_nat (n div 10) @ [digit (n mod 10)])"
  by pat_completeness auto
termination
  by (relation "measure id") auto

declare show_nat.simps [simp del]

text \<open>
  \<^verbatim>\<open>(byteLength / (1024 * 1024)).toFixed(2)\<close>: the quotient by a power of two is exact,
  and \<^verbatim>\<open>toFixed\<close> takes the nearest multiple of 0.01, the larger one on a tie.
\<close>

definition fileSizeMB :: "nat \<Rightarrow> string" where
  "fileSizeMB byteLength =
     (let n = (200 * byteLength + 1048576) div 2097152
      in show_nat (n div 100) @ ''.'' @ show_nat (n mod 100 div 10) @ show_nat (n mod 10))"

text \<open>
  \<^verbatim>\<open>path.join\<close> of two segments that need no normalisation: the first is taken to be
  a normalised path other than the root (as \<^verbatim>\<open>os.tmpdir()\<close> gives it, without a
  trailing slash), the second a plain file or directory name. No property below depends
  on the text of the path.
\<close>

definition join :: "string \<Rightarrow> string \<Rightarrow> string" where
  "join a b = a @ ''/'' @ b"

subsection \<open>Configuration\<close>

definition VAAM_API_KEY :: string where
  "VAAM_API_KEY = ''e77d68f7-8318-4b48-b7f4-258c9596685f''"

text \<open>
  \<^verbatim>\<open>/^https:\/\/app\.vaam\.io\/share\/([\w-]+)$/\<close>: the literal prefix, then one or
  more characters of \<^verbatim>\<open>[A-Za-z0-9_-]\<close> up to the end of the string.
  \<open>VAAM_URL_PATTERN_match\<close> gives the capture group of a match.
\<close>

definition is_word_char :: "char \<Rightarrow> bool" where
  "is_word_char c =
     (let n = (of_char c :: nat)
      in (48 \<le> n \<and> n \<le> 57) \<or> (65 \<le> n \<and> n \<le> 90) \<or> n = 95 \<or> (97 \<le> n \<and> n \<le> 122))"

definition is_id_char :: "char \<Rightarrow> bool" where
  "is_id_char c = (is_word_char c \<or> c = CHR ''-'')"

definition VAAM_URL_PREFIX :: string where
  "VAAM_URL_PREFIX = ''https://app.vaam.io/share/''"

definition VAAM_URL_PATTERN_match :: "string \<Rightarrow> string option" where
  "VAAM_URL_PATTERN_match s =
     (let n = length VAAM_URL_PREFIX; captureId = drop n s
      in if take n s = VAAM_URL_PREFIX \<and> captureId \<noteq> [] \<and> list_all is_id_char captureId
         then Some captureId else None)"

definition VAAM_URL_PATTERN_test :: "string \<Rightarrow> bool" where
  "VAAM_URL_PATTERN_test s = (VAAM_URL_PATTERN_match s \<noteq> None)"

definition TEMP_DIR :: "World \<Rightarrow> string" where
  "TEMP_DIR w = join (tmpdir w) ''gemini-analyze-video''"

subsection \<open>Utilities\<close>

definition console_log :: "stdout_item \<Rightarrow> unit comp" where
  "console_log x st = (Return (), st\<lparr>stdout := stdout st @ [x]\<rparr>)"

definition log :: "string \<Rightarrow> unit comp" where
  "log msg st = (if verbose st then console_log (Line msg) st else (Return (), st))"

definition createError :: "ErrorCode \<Rightarrow> string \<Rightarrow> string \<Rightarrow> string \<Rightarrow> ErrorResult" where
  "createError c m d s =
     \<lparr>success = False, error = \<lparr>code = c, message = m, details = d, suggestion = s\<rparr>\<rparr>"

definition outputError :: "ErrorResult \<Rightarrow> unit comp" where
  "outputError e = console_log (Json e)"

fun getExitCode :: "ErrorCode \<Rightarrow> nat" where
  "getExitCode MISSING_ARGUMENT = 1"
| "getExitCode INVALID_URL = 1"
| "getExitCode MISSING_API_KEY = 1"
| "getExitCode VIDEO_EXTRACTION_FAILED = 2"
| "getExitCode VIDEO_DOWNLOAD_FAILED = 2"
| "getExitCode TRANSCRIPTION_FAILED = 2"

definition help_text :: string where
  \<open>help_text =
    ''transcribe-vaam-video-with-gemini.ts - Transcribe Vaam videos using Gemini AI\<newline>'' @
    ''\<newline>'' @
    ''USAGE:\<newline>'' @
    ''  bun transcribe-vaam-video-with-gemini.ts [OPTIONS] <vaam-url>\<newline>'' @
    ''\<newline>'' @
    ''ARGUMENTS:\<newline>'' @
    ''  <vaam-url>    Vaam share URL (e.g., https://app.vaam.io/share/abc123)\<newline>'' @
    ''\<newline>'' @
    ''OPTIONS:\<newline>'' @
    ''  --help, -h     Show this help message\<newline>'' @
    ''  --verbose, -v  Enable progress logging\<newline>'' @
    ''\<newline>'' @
    ''ENVIRONMENT:\<newline>'' @
    ''  GEMINI_API_KEY  Required. Your Google Gemini API key.\<newline>'' @
    ''\<newline>'' @
    ''EXAMPLES:\<newline>'' @
    ''  bun transcribe-vaam-video-with-gemini.ts https://app.vaam.io/share/abc123\<newline>'' @
    ''  bun transcribe-vaam-video-with-gemini.ts --verbose https://app.vaam.io/share/abc123\<newline>'' @
    ''\<newline>'' @
    ''OUTPUT:\<newline>'' @
    ''  Success: Plain text transcription to stdout\<newline>'' @
    ''  Error:   JSON to stdout: { "success": false, "error": { "code": "...", "message": "...", "details": "...", "suggestion": "..." } }\<newline>'' @
    ''\<newline>'' @
    ''EXIT CODES:\<newline>'' @
    ''  0  Success\<newline>'' @
    ''  1  Usage/validation error (bad input, missing API key)\<newline>'' @
    ''  2  Runtime error (network failure, API error)''\<close>

definition showHelp :: "unit comp" where
  "showHelp = console_log (Line help_text)"

subsection \<open>Cleanup\<close>

text \<open>\<^verbatim>\<open>unlink\<close> removes an existing file and fails on a missing one.\<close>

definition unlink :: "string \<Rightarrow> unit comp" where
  "unlink p st =
     (case files st p of
        None \<Rightarrow> (Throw (''ENOENT: no such file or directory, unlink '' @ p), st)
      | Some b \<Rightarrow> (Return (), st\<lparr>files := (files st)(p := None)\<rparr>))"

definition cleanup :: "unit comp" where
  "cleanup st =
     (if truthy (tempFilePath st)
      then try_catch
             (bind (unlink (the (tempFilePath st)))
                (\<lambda>u. log (''Cleaned up temporary file: '' @ the (tempFilePath st))))
             (\<lambda>e. return ()) st
      else (Return (), st))"

subsection \<open>Vaam video extraction\<close>

definition extractCaptureId :: "string \<Rightarrow> string option" where
  "extractCaptureId vaamUrl = VAAM_URL_PATTERN_match vaamUrl"

definition apiUrl :: "string \<Rightarrow> string" where
  "apiUrl captureId =
     ''https://app.vaam.io/api/captures/paths?captureId='' @ captureId @ ''&apiKey='' @ VAAM_API_KEY"

text \<open>\<^verbatim>\<open>data.mp4 || data.webm || data.hls || null\<close>\<close>

definition selectMediaUrl :: "MediaDescriptor \<Rightarrow> string option" where
  "selectMediaUrl data = js_or (js_or (js_or (mp4 data) (webm data)) (hls data)) None"

definition extractVideoUrl :: "World \<Rightarrow> string \<Rightarrow> (string option) comp" where
  "extractVideoUrl w vaamUrl =
     (let captureId = extractCaptureId vaamUrl
      in if \<not> truthy captureId then return None
         else
           bind (log ''Fetching video URL from Vaam API...'') (\<lambda>u.
           bind (await (fetch w (apiUrl (the captureId)))) (\<lambda>response.
             if \<not> ok response then return None
             else
               bind (await (json response)) (\<lambda>data.
                 case data of
                   Falsy \<Rightarrow>
                     bind (outputError (createError VIDEO_DOWNLOAD_FAILED
                             ''Failed to extract video URL from Vaam API response''
                             '''' ''Validate the link''))
                       (\<lambda>u. return None)
                 | Object d \<Rightarrow> return (selectMediaUrl d)))))"

subsection \<open>Video download\<close>

text \<open>The two local constants of \<^verbatim>\<open>downloadVideo\<close>.\<close>

definition fileName :: "World \<Rightarrow> string" where
  "fileName w = ''vaam-'' @ show_nat (Date_now w) @ ''.mp4''"

definition filePath :: "World \<Rightarrow> string" where
  "filePath w = join (TEMP_DIR w) (fileName w)"

text \<open>A successful \<^verbatim>\<open>Bun.write\<close> leaves the buffer in the file.\<close>

definition write_file :: "string \<Rightarrow> bytes \<Rightarrow> unit comp" where
  "write_file p b st = (Return (), st\<lparr>files := (files st)(p \<mapsto> b)\<rparr>)"

definition downloadVideo :: "World \<Rightarrow> string \<Rightarrow> string comp" where
  "downloadVideo w videoUrl =
     bind (await (mkdir w (TEMP_DIR w))) (\<lambda>u.
       let filePath = filePath w
       in
         bind (log (''Downloading video to '' @ filePath @ ''...'')) (\<lambda>u.
         bind (await (fetch w videoUrl)) (\<lambda>response.
           if \<not> ok response
           then throw (''HTTP '' @ show_nat (status response) @ '': '' @ statusText response)
           else
             bind (await (arrayBuffer response)) (\<lambda>buffer.
             bind (await (Bun_write w filePath buffer)) (\<lambda>u.
             bind (write_file filePath buffer) (\<lambda>u.
             bind (log (''Downloaded '' @ fileSizeMB (length buffer) @ '' MB'')) (\<lambda>u.
             return filePath)))))))"

subsection \<open>Gemini transcription\<close>

definition readFile :: "string \<Rightarrow> bytes comp" where
  "readFile p st =
     (case files st p of
        None \<Rightarrow> (Throw (''ENOENT: no such file or directory, open '' @ p), st)
      | Some b \<Rightarrow> (Return b, st))"

text \<open>
  The base64 text of the buffer stands for the buffer: the model's answer is a function
  of the key and the video.
\<close>

definition transcribeVideo :: "World \<Rightarrow> string \<Rightarrow> string \<Rightarrow> string comp" where
  "transcribeVideo w videoPath apiKey =
     bind (log ''Reading video file...'') (\<lambda>u.
     bind (readFile videoPath) (\<lambda>videoBuffer.
     bind (log ''Sending to Gemini for transcription...'') (\<lambda>u.
     bind (await (generateContent w apiKey videoBuffer)) (\<lambda>transcription.
     bind (log (''Transcription complete ('' @ show_nat (length transcription) @ '' characters)''))
       (\<lambda>u. return transcription)))))"

subsection \<open>Main\<close>

definition helpFlag :: "string list \<Rightarrow> bool" where
  "helpFlag args = (array_includes args ''--help'' \<or> array_includes args ''-h'')"

definition verboseFlag :: "string list \<Rightarrow> bool" where
  "verboseFlag args = (array_includes args ''--verbose'' \<or> array_includes args ''-v'')"

definition positionalArgs :: "string list \<Rightarrow> string list" where
  "positionalArgs args =
     filter (\<lambda>arg. \<not> startsWith arg ''-'' \<and> \<not> startsWith arg ''--'') args"

text \<open>\<^verbatim>\<open>positionalArgs[0]\<close>: \<^verbatim>\<open>undefined\<close> on an empty array.\<close>

definition first_arg :: "string list \<Rightarrow> string option" where
  "first_arg xs = (case xs of [] \<Rightarrow> None | x # rest \<Rightarrow> Some x)"

text \<open>
  The two statements that end every handled failure:
  \<^verbatim>\<open>outputError(error); process.exit(getExitCode(error.error.code))\<close>.
\<close>

definition fail :: "ErrorResult \<Rightarrow> 'a comp" where
  "fail e = bind (outputError e) (\<lambda>u. process_exit (getExitCode (code (error e))))"

text \<open>The body of the \<^verbatim>\<open>try\<close> block of \<^verbatim>\<open>main\<close>.\<close>

definition main_try :: "World \<Rightarrow> string \<Rightarrow> string \<Rightarrow> unit comp" where
  \<open>main_try w vaamUrl apiKey =
     bind (extractVideoUrl w vaamUrl) (\<lambda>videoUrl.
       if \<not> truthy videoUrl
       then fail (createError VIDEO_EXTRACTION_FAILED
              ''Could not extract video URL from Vaam''
              (''The Vaam API did not return a video URL for: '' @ vaamUrl)
              ''Verify the Vaam link is valid and the video exists. The video may have been deleted or the link may have expired.'')
       else
         bind (log (''Video URL: '' @ the videoUrl)) (\<lambda>u.
         bind (try_catch
                 (bind (downloadVideo w (the videoUrl))
                    (\<lambda>p st. (Return p, st\<lparr>tempFilePath := Some p\<rparr>)))
                 (\<lambda>errorMessage.
                    fail (createError VIDEO_DOWNLOAD_FAILED
                      ''Failed to download video file''
                      (''Download error: '' @ errorMessage)
                      ''Check your network connection. The video URL may have expired or the server may be temporarily unavailable.'')))
           (\<lambda>path.
         bind (try_catch
                 (transcribeVideo w path apiKey)
                 (\<lambda>errorMessage.
                    fail (createError TRANSCRIPTION_FAILED
                      ''Gemini API transcription error''
                      (''Transcription error: '' @ errorMessage)
                      ''Check your GEMINI_API_KEY is valid. The video may be too large, corrupted, or in an unsupported format. Gemini supports videos up to 2GB.'')))
           (\<lambda>transcription.
         bind (console_log (Line transcription)) (\<lambda>u.
         process_exit 0)))))\<close>

definition main :: "World \<Rightarrow> unit comp" where
  \<open>main w =
     (let args = argv w in
      if helpFlag args then bind showHelp (\<lambda>u. process_exit 0)
      else
        bind (\<lambda>st. (Return (), st\<lparr>verbose := verboseFlag args\<rparr>)) (\<lambda>u.
          let vaamUrl = first_arg (positionalArgs args) in
          if \<not> truthy vaamUrl
          then fail (createError MISSING_ARGUMENT
                 ''No Vaam URL provided''
                 ''This command requires a Vaam share URL as an argument.''
                 ''Run with --help to see usage examples, or provide a URL like: bun transcribe-vaam-video-with-gemini.ts https://app.vaam.io/share/abc123'')
          else if \<not> VAAM_URL_PATTERN_test (the vaamUrl)
          then fail (createError INVALID_URL
                 ''Invalid Vaam URL format''
                 (''Received: "'' @ the vaamUrl @ ''". Expected format: https://app.vaam.io/share/[id]'')
                 ''Ensure the URL matches the pattern https://app.vaam.io/share/[alphanumeric-id]. The ID can contain letters, numbers, and hyphens.'')
          else
            let apiKey = GEMINI_API_KEY w in
            if \<not> truthy apiKey
            then fail (createError MISSING_API_KEY
                   ''GEMINI_API_KEY environment variable not set''
                   ''The Gemini API key is required to transcribe videos.''
                   ''Set the GEMINI_API_KEY environment variable. You can get an API key from https://aistudio.google.com/apikey'')
            else
              bind (log (''Processing Vaam URL: '' @ the vaamUrl)) (\<lambda>u.
                try_finally (main_try w (the vaamUrl) (the apiKey)) cleanup)))\<close>

text \<open>The callback of \<^verbatim>\<open>main().catch(...)\<close>.\<close>

definition main_catch :: "string \<Rightarrow> unit comp" where
  "main_catch errorMessage =
     bind cleanup (\<lambda>u.
     bind (outputError (createError TRANSCRIPTION_FAILED
             ''Unexpected error''
             (''Error: '' @ errorMessage)
             ''This is an unexpected error. Check the error details and try again.''))
       (\<lambda>u. process_exit 2))"

definition init_state :: "World \<Rightarrow> State" where
  "init_state w = \<lparr>verbose = False, tempFilePath = None, stdout = [], files = initial_files w\<rparr>"

text \<open>
  A whole run: the exit code of the process and the final state. A run that neither
  throws nor calls \<^verbatim>\<open>process.exit\<close> ends with code 0 when the event loop drains; an
  error that escapes the handler of \<^verbatim>\<open>main().catch\<close> is an unhandled rejection, code 1.
  (\<open>main_result\<close> and \<open>cleanup_returns\<close> below show that neither happens.)
\<close>

definition exit_code_of :: "unit outcome \<Rightarrow> nat" where
  "exit_code_of r = (case r of Exit c \<Rightarrow> c | Return u \<Rightarrow> 0 | Throw e \<Rightarrow> 1)"

definition run :: "World \<Rightarrow> nat \<times> State" where
  "run w =
     (case try_catch (main w) main_catch (init_state w) of
        (r, st) \<Rightarrow> (exit_code_of r, st))"

text \<open>The codes of the error objects on standard output, in the order written.\<close>

fun error_codes :: "stdout_item list \<Rightarrow> ErrorCode list" where
  "error_codes [] = []"
| "error_codes (Line s # xs) = error_codes xs"
| "error_codes (Json e # xs) = code (error e) # error_codes xs"

subsection \<open>The resolver's contract, in the specification's words\<close>

text \<open>
  ``The first present URL in priority order mp4, webm, hls'': a field is present when
  the payload has it, whatever its value.
\<close>

definition spec_first_present :: "MediaDescriptor \<Rightarrow> string option" where
  "spec_first_present d =
     (case mp4 d of
        Some u \<Rightarrow> Some u
      | None \<Rightarrow> (case webm d of Some u \<Rightarrow> Some u | None \<Rightarrow> hls d))"

text \<open>
  ``A field that is present but equal to the empty string is treated as absent'': the
  payload with every such field removed.
\<close>

definition absent_if_empty :: "string option \<Rightarrow> string option" where
  "absent_if_empty v = (if v = Some [] then None else v)"

definition without_empty_fields :: "MediaDescriptor \<Rightarrow> MediaDescriptor" where
  "without_empty_fields d =
     \<lparr>mp4 = absent_if_empty (mp4 d), webm = absent_if_empty (webm d),
      hls = absent_if_empty (hls d)\<rparr>"

text \<open>
  The resolver answers the lookup for \<open>vaamUrl\<close> with a success status and the JSON
  object \<open>d\<close>.
\<close>

definition resolver_answers :: "World \<Rightarrow> string \<Rightarrow> MediaDescriptor \<Rightarrow> bool" where
  "resolver_answers w vaamUrl d =
     (case extractCaptureId vaamUrl of
        None \<Rightarrow> False
      | Some captureId \<Rightarrow>
          (case fetch w (apiUrl captureId) of
             Inl e \<Rightarrow> False
           | Inr response \<Rightarrow> ok response \<and> json response = Inr (Object d)))"

subsection \<open>Example runs\<close>

text \<open>
  A response with status 200 whose body parses to \<open>p\<close> and holds three bytes, and a
  world in which every stage succeeds: the share link of the manual, a key, a resolver
  that offers an MP4, and a model that answers \<open>hello world\<close>.
\<close>

definition response_200 :: "Payload \<Rightarrow> Response" where
  "response_200 p =
     \<lparr>ok = True, status = 200, statusText = ''OK'', json = Inr p, arrayBuffer = Inr [1, 2, 3]\<rparr>"

definition world_ok :: World where
  "world_ok =
     \<lparr>argv = [''https://app.vaam.io/share/abc123''],
      GEMINI_API_KEY = Some ''key'',
      tmpdir = ''/tmp'',
      Date_now = 42,
      initial_files = Map.empty,
      mkdir = (\<lambda>p. Inr ()),
      fetch = (\<lambda>u. Inr (response_200
                (Object \<lparr>mp4 = Some ''https://cdn.example/v.mp4'', webm = None, hls = None\<rparr>))),
      Bun_write = (\<lambda>p b. Inr ()),
      generateContent = (\<lambda>k b. Inr ''hello world'')\<rparr>"

text \<open>The same run with progress logging switched on.\<close>

definition world_verbose :: World where
  "world_verbose = world_ok\<lparr>argv := [''--verbose'', ''https://app.vaam.io/share/abc123'']\<rparr>"

text \<open>Command lines that carry no well-formed share link.\<close>

definition world_bad_url :: World where
  "world_bad_url = world_ok\<lparr>argv := [''http://example.com/video'']\<rparr>"

definition world_dash_arg :: World where
  "world_dash_arg = world_ok\<lparr>argv := [''-x'']\<rparr>"

definition world_empty_arg :: World where
  "world_empty_arg = world_ok\<lparr>argv := [[]]\<rparr>"

definition world_flags_only :: World where
  "world_flags_only = world_ok\<lparr>argv := [''--verbose'', ''-x'']\<rparr>"

text \<open>No credential in the environment, with a well-formed and with a malformed link.\<close>

definition world_no_key :: World where
  "world_no_key = world_ok\<lparr>GEMINI_API_KEY := None\<rparr>"

definition world_no_key_bad_url :: World where
  "world_no_key_bad_url = world_ok\<lparr>argv := [''not-a-url''], GEMINI_API_KEY := None\<rparr>"

text \<open>The resolver's request fails, and the resolver answers with the body \<^verbatim>\<open>null\<close>.\<close>

definition fetch_fails :: "string \<Rightarrow> string + Response" where
  "fetch_fails u = Inl ''Unable to connect''"

definition world_fetch_fails :: World where
  "world_fetch_fails = world_ok\<lparr>fetch := fetch_fails\<rparr>"

definition fetch_null :: "string \<Rightarrow> string + Response" where
  "fetch_null u = Inr (response_200 Falsy)"

definition world_null_body :: World where
  "world_null_body = world_ok\<lparr>fetch := fetch_null\<rparr>"

text \<open>Resolver payloads with empty fields, and one that offers HLS only.\<close>

definition descriptor_empty_mp4 :: MediaDescriptor where
  "descriptor_empty_mp4 = \<lparr>mp4 = Some [], webm = Some ''https://cdn.example/v.webm'', hls = None\<rparr>"

definition descriptor_all_empty :: MediaDescriptor where
  "descriptor_all_empty = \<lparr>mp4 = Some [], webm = Some [], hls = Some []\<rparr>"

definition descriptor_hls_only :: MediaDescriptor where
  "descriptor_hls_only = \<lparr>mp4 = None, webm = None, hls = Some ''https://cdn.example/v.m3u8''\<rparr>"

definition fetch_descriptor :: "MediaDescriptor \<Rightarrow> string \<Rightarrow> string + Response" where
  "fetch_descriptor d u = Inr (response_200 (Object d))"

definition world_empty_mp4 :: World where
  "world_empty_mp4 = world_ok\<lparr>fetch := fetch_descriptor descriptor_empty_mp4\<rparr>"

definition world_all_empty :: World where
  "world_all_empty = world_ok\<lparr>fetch := fetch_descriptor descriptor_all_empty\<rparr>"

definition world_hls_only :: World where
  "world_hls_only = world_ok\<lparr>fetch := fetch_descriptor descriptor_hls_only\<rparr>"

text \<open>Payloads in which the selection has to fall through one and two empty fields.\<close>

definition descriptor_webm_after_empty :: MediaDescriptor where
  "descriptor_webm_after_empty =
     \<lparr>mp4 = Some [], webm = Some ''https://cdn.example/v.webm'',
      hls = Some ''https://cdn.example/v.m3u8''\<rparr>"

definition descriptor_hls_after_empty :: MediaDescriptor where
  "descriptor_hls_after_empty =
     \<lparr>mp4 = Some [], webm = Some [], hls = Some ''https://cdn.example/v.m3u8''\<rparr>"

definition world_webm_after_empty :: World where
  "world_webm_after_empty = world_ok\<lparr>fetch := fetch_descriptor descriptor_webm_after_empty\<rparr>"

definition world_hls_after_empty :: World where
  "world_hls_after_empty = world_ok\<lparr>fetch := fetch_descriptor descriptor_hls_after_empty\<rparr>"

section \<open>Unfolding the model\<close>

lemmas control_defs =
  bind_def return_def throw_def process_exit_def await_def try_catch_def try_finally_def

lemmas io_defs =
  console_log_def log_def outputError_def createError_def showHelp_def fail_def
  unlink_def readFile_def write_file_def

lemmas string_defs =
  truthy_def js_or_def startsWith_def array_includes_def

lemmas pattern_defs =
  VAAM_URL_PATTERN_test_def VAAM_URL_PATTERN_match_def VAAM_URL_PREFIX_def
  is_id_char_def is_word_char_def

lemmas stage_defs =
  cleanup_def extractCaptureId_def extractVideoUrl_def selectMediaUrl_def
  downloadVideo_def transcribeVideo_def

lemmas main_defs =
  run_def main_def main_try_def main_catch_def init_state_def exit_code_of_def
  helpFlag_def verboseFlag_def positionalArgs_def first_arg_def

lemmas run_defs =
  control_defs io_defs string_defs pattern_defs stage_defs main_defs Let_def

lemmas world_defs =
  world_ok_def world_verbose_def world_bad_url_def world_dash_arg_def world_empty_arg_def
  world_flags_only_def world_no_key_def world_no_key_bad_url_def world_fetch_fails_def
  world_null_body_def world_empty_mp4_def world_all_empty_def world_hls_only_def
  fetch_fails_def fetch_null_def fetch_descriptor_def response_200_def
  descriptor_empty_mp4_def descriptor_all_empty_def descriptor_hls_only_def
  descriptor_webm_after_empty_def descriptor_hls_after_empty_def
  world_webm_after_empty_def world_hls_after_empty_def

subsection \<open>Numbers in the example runs\<close>

lemma show_nat_42: "show_nat 42 = ''42''"
  by (simp add: show_nat.simps digit_def)

lemma show_nat_length_hello: "show_nat (length ''hello world'') = ''11''"
  by (simp add: show_nat.simps digit_def)

lemma fileSizeMB_three_bytes: "fileSizeMB (length [1, 2, 3 :: 8 word]) = ''0.00''"
  by (simp add: fileSizeMB_def show_nat.simps digit_def)

lemma filePath_world_ok: "filePath world_ok = ''/tmp/gemini-analyze-video/vaam-42.mp4''"
  by (simp add: filePath_def fileName_def TEMP_DIR_def join_def world_ok_def show_nat_42)

section \<open>Properties of the stages\<close>

subsection \<open>Command line and URL pattern\<close>

lemma positionalArgs_flags_only:
  "list_all (\<lambda>arg. startsWith arg ''-'') args \<Longrightarrow> positionalArgs args = []"
  by (induction args) (simp_all add: positionalArgs_def)

lemma startsWith_two_dashes: "startsWith s ''--'' \<Longrightarrow> startsWith s ''-''"
  by (cases s) (auto simp: startsWith_def)

lemma positionalArgs_single: "\<not> startsWith s ''-'' \<Longrightarrow> positionalArgs [s] = [s]"
  using startsWith_two_dashes[of s] by (auto simp: positionalArgs_def)

lemma helpFlag_single: "\<not> startsWith s ''-'' \<Longrightarrow> \<not> helpFlag [s]"
  by (auto simp: helpFlag_def array_includes_def startsWith_def)

lemma pattern_test_nonempty: "VAAM_URL_PATTERN_test s \<Longrightarrow> s \<noteq> []"
  by (auto simp: pattern_defs Let_def)

lemma resolver_answers_test:
  "resolver_answers w vaamUrl d \<Longrightarrow> VAAM_URL_PATTERN_test vaamUrl"
  by (auto simp: resolver_answers_def extractCaptureId_def VAAM_URL_PATTERN_test_def
      split: option.splits)

subsection \<open>Logging and cleanup\<close>

lemma log_quiet: "\<not> verbose st \<Longrightarrow> log msg st = (Return (), st)"
  by (simp add: log_def)


lemma cleanup_no_temp_file: "tempFilePath st = None \<Longrightarrow> cleanup st = (Return (), st)"
  by (simp add: cleanup_def truthy_def)

text \<open>When \<open>cleanup\<close> does run with a recorded path, the file is gone afterwards.\<close>

lemma cleanup_removes_file:
  "truthy (tempFilePath st) \<Longrightarrow> files (snd (cleanup st)) (the (tempFilePath st)) = None"
  by (auto simp: cleanup_def control_defs unlink_def log_def console_log_def
      split: option.splits)

subsection \<open>Extraction\<close>

lemma selectMediaUrl_nonempty: "selectMediaUrl d = Some u \<Longrightarrow> u \<noteq> []"
  by (auto simp: selectMediaUrl_def js_or_def truthy_def split: if_splits option.splits)

lemma selectMediaUrl_present:
  assumes "mp4 d \<noteq> Some []" and "webm d \<noteq> Some []" and "hls d \<noteq> Some []"
  shows "selectMediaUrl d = spec_first_present d"
  using assms
  by (auto simp: selectMediaUrl_def spec_first_present_def js_or_def truthy_def
      split: option.splits)

lemma extractVideoUrl_answer:
  assumes "resolver_answers w vaamUrl d"
  shows "extractVideoUrl w vaamUrl st =
           (Return (selectMediaUrl d), snd (log ''Fetching video URL from Vaam API...'' st))"
  using assms
  by (auto simp: resolver_answers_def extractVideoUrl_def extractCaptureId_def pattern_defs
        control_defs truthy_def log_def console_log_def Let_def
      split: option.splits sum.splits if_splits)

lemma extractVideoUrl_state:
  "extractVideoUrl w vaamUrl st = (r, st') \<Longrightarrow>
     tempFilePath st' = tempFilePath st \<and> files st' = files st \<and> verbose st' = verbose st"
  by (auto simp: extractVideoUrl_def control_defs io_defs Let_def
      split: if_splits sum.splits Payload.splits)

text \<open>
  With a well-formed link and a credential, a resolver that answers with a non-success
  status, or with an object none of whose fields is selected, ends the run with the one
  error \<open>VIDEO_EXTRACTION_FAILED\<close> and exit code 2.
\<close>

lemma extraction_failure_reported:
  assumes "\<not> helpFlag (argv w)"
    and "first_arg (positionalArgs (argv w)) = Some vaamUrl"
    and "VAAM_URL_PATTERN_match vaamUrl = Some captureId"
    and "truthy (GEMINI_API_KEY w)"
    and "fetch w (apiUrl captureId) = Inr response"
    and "\<not> ok response \<or> (\<exists>d. json response = Inr (Object d) \<and> selectMediaUrl d = None)"
  shows "fst (run w) = 2 \<and> error_codes (stdout (snd (run w))) = [VIDEO_EXTRACTION_FAILED]"
proof -
  have t: "VAAM_URL_PATTERN_test vaamUrl"
    using assms(3) by (simp add: VAAM_URL_PATTERN_test_def)
  show ?thesis
    using assms t pattern_test_nonempty[OF t]
    by (auto simp: run_def main_def main_try_def extractVideoUrl_def extractCaptureId_def
          control_defs io_defs truthy_def init_state_def exit_code_of_def Let_def)
qed

subsection \<open>Download and transcription\<close>

lemma downloadVideo_quiet:
  assumes "\<not> verbose st"
    and "mkdir w (TEMP_DIR w) = Inr ()"
    and "fetch w videoUrl = Inr response" and "ok response"
    and "arrayBuffer response = Inr buffer"
    and "Bun_write w (filePath w) buffer = Inr ()"
  shows "downloadVideo w videoUrl st =
           (Return (filePath w), st\<lparr>files := (files st)(filePath w \<mapsto> buffer)\<rparr>)"
  using assms
  by (simp add: downloadVideo_def control_defs log_quiet write_file_def Let_def)

lemma downloadVideo_result:
  "downloadVideo w videoUrl st = (r, st') \<Longrightarrow>
     tempFilePath st' = tempFilePath st \<and>
     (case r of Return p \<Rightarrow> files st' p \<noteq> None | Throw e \<Rightarrow> True | Exit c \<Rightarrow> False)"
  by (auto simp: downloadVideo_def control_defs io_defs Let_def
      split: if_splits sum.splits)

lemma transcribeVideo_quiet:
  assumes "\<not> verbose st" and "files st videoPath = Some videoBuffer"
    and "generateContent w apiKey videoBuffer = Inr transcription"
  shows "transcribeVideo w videoPath apiKey st = (Return transcription, st)"
  using assms
  by (simp add: transcribeVideo_def control_defs log_quiet readFile_def)

lemma transcribeVideo_state:
  "transcribeVideo w videoPath apiKey st = (r, st') \<Longrightarrow>
     tempFilePath st' = tempFilePath st \<and> files st' = files st"
  by (auto simp: transcribeVideo_def control_defs io_defs Let_def
      split: if_splits sum.splits option.splits)

subsection \<open>The pipeline\<close>

lemma main_try_quiet:
  assumes "\<not> verbose st"
    and "resolver_answers w vaamUrl d" and "selectMediaUrl d = Some videoUrl"
    and "mkdir w (TEMP_DIR w) = Inr ()"
    and "fetch w videoUrl = Inr response" and "ok response"
    and "arrayBuffer response = Inr buffer"
    and "Bun_write w (filePath w) buffer = Inr ()"
    and "generateContent w apiKey buffer = Inr transcription"
  shows "main_try w vaamUrl apiKey st =
           (Exit 0, st\<lparr>tempFilePath := Some (filePath w),
                       stdout := stdout st @ [Line transcription],
                       files := (files st)(filePath w \<mapsto> buffer)\<rparr>)"
proof -
  let ?st1 = "st\<lparr>files := (files st)(filePath w \<mapsto> buffer)\<rparr>"
  let ?st2 = "?st1\<lparr>tempFilePath := Some (filePath w)\<rparr>"
  have ex: "extractVideoUrl w vaamUrl st = (Return (Some videoUrl), st)"
    using extractVideoUrl_answer[OF assms(2), of st] assms(1,3) by (simp add: log_quiet)
  have ne: "truthy (Some videoUrl)"
    using selectMediaUrl_nonempty[OF assms(3)] by (simp add: truthy_def)
  have dl: "downloadVideo w videoUrl st = (Return (filePath w), ?st1)"
    by (rule downloadVideo_quiet[OF assms(1,4-8)])
  have tr: "transcribeVideo w (filePath w) apiKey ?st2 = (Return transcription, ?st2)"
    by (rule transcribeVideo_quiet) (use assms in simp_all)
  show ?thesis
    using assms(1) ne
    by (simp add: main_try_def bind_def try_catch_def ex dl tr log_quiet console_log_def
          process_exit_def)
qed

text \<open>
  How the \<^verbatim>\<open>try\<close> block can end when it starts with no recorded path: it never falls
  off its end; if it throws, no path has been recorded; if it exits, a recorded path
  names a file that is on disk.
\<close>

lemma main_try_result:
  assumes "main_try w vaamUrl apiKey st = (r, st')" and "tempFilePath st = None"
  shows "case r of
           Exit c \<Rightarrow> (case tempFilePath st' of None \<Rightarrow> True | Some p \<Rightarrow> files st' p \<noteq> None)
         | Throw e \<Rightarrow> tempFilePath st' = None
         | Return u \<Rightarrow> False"
proof -
  obtain r1 s1 where ex: "extractVideoUrl w vaamUrl st = (r1, s1)"
    by (cases "extractVideoUrl w vaamUrl st")
  have s1: "tempFilePath s1 = None"
    using extractVideoUrl_state[OF ex] assms(2) by simp
  show ?thesis
  proof (cases r1)
    case (Throw e)
    with assms(1) ex s1 show ?thesis by (auto simp: main_try_def bind_def)
  next
    case (Exit c)
    with assms(1) ex s1 show ?thesis by (auto simp: main_try_def bind_def)
  next
    case (Return videoUrl)
    show ?thesis
    proof (cases "truthy videoUrl")
      case False
      with assms(1) ex s1 Return show ?thesis
        by (auto simp: main_try_def bind_def fail_def outputError_def console_log_def
              process_exit_def)
    next
      case True
      define s2 where "s2 = snd (log (''Video URL: '' @ the videoUrl) s1)"
      have lg: "log (''Video URL: '' @ the videoUrl) s1 = (Return (), s2)"
        by (simp add: s2_def log_def console_log_def)
      have s2: "tempFilePath s2 = None"
        using s1 by (simp add: s2_def log_def console_log_def)
      obtain r3 s3 where dl: "downloadVideo w (the videoUrl) s2 = (r3, s3)"
        by (cases "downloadVideo w (the videoUrl) s2")
      note d = downloadVideo_result[OF dl]
      show ?thesis
      proof (cases r3)
        case (Throw e)
        with assms(1) ex Return True lg dl d s2 show ?thesis
          by (auto simp: main_try_def bind_def try_catch_def fail_def outputError_def
                console_log_def process_exit_def)
      next
        case (Exit c)
        with d show ?thesis by simp
      next
        case (Return path)
        let ?s4 = "s3\<lparr>tempFilePath := Some path\<rparr>"
        obtain r5 s5 where tr: "transcribeVideo w path apiKey ?s4 = (r5, s5)"
          by (cases "transcribeVideo w path apiKey ?s4")
        have s5: "tempFilePath s5 = Some path" "files s5 path \<noteq> None"
          using transcribeVideo_state[OF tr] d Return by simp_all
        from assms(1) ex \<open>r1 = Return videoUrl\<close> True lg dl Return tr s5 show ?thesis
          by (cases r5)
             (auto simp: main_try_def bind_def try_catch_def fail_def outputError_def
                console_log_def process_exit_def)
      qed
    qed
  qed
qed

lemma main_result:
  assumes "main w (init_state w) = (r, st')"
  shows "case r of
           Exit c \<Rightarrow> (case tempFilePath st' of None \<Rightarrow> True | Some p \<Rightarrow> files st' p \<noteq> None)
         | Throw e \<Rightarrow> tempFilePath st' = None
         | Return u \<Rightarrow> False"
proof (cases "\<not> helpFlag (argv w) \<and> truthy (first_arg (positionalArgs (argv w)))
    \<and> VAAM_URL_PATTERN_test (the (first_arg (positionalArgs (argv w))))
    \<and> truthy (GEMINI_API_KEY w)")
  case False
  with assms show ?thesis
    by (auto simp: main_def bind_def fail_def showHelp_def outputError_def console_log_def
          process_exit_def init_state_def Let_def split: if_splits)
next
  case True
  let ?url = "the (first_arg (positionalArgs (argv w)))"
  let ?key = "the (GEMINI_API_KEY w)"
  let ?st0 = "(init_state w)\<lparr>verbose := verboseFlag (argv w)\<rparr>"
  define s1 where "s1 = snd (log (''Processing Vaam URL: '' @ ?url) ?st0)"
  have lg: "log (''Processing Vaam URL: '' @ ?url) ?st0 = (Return (), s1)"
    by (simp add: s1_def log_def console_log_def)
  have s1: "tempFilePath s1 = None"
    by (simp add: s1_def log_def console_log_def init_state_def)
  obtain r2 s2 where mt: "main_try w ?url ?key s1 = (r2, s2)"
    by (cases "main_try w ?url ?key s1")
  note m = main_try_result[OF mt s1]
  have "main w (init_state w) = try_finally (main_try w ?url ?key) cleanup s1"
    using True lg by (simp add: main_def bind_def Let_def)
  with assms have "try_finally (main_try w ?url ?key) cleanup s1 = (r, st')"
    by simp
  with mt m show ?thesis
    by (cases r2) (auto simp: try_finally_def cleanup_no_temp_file)
qed

text \<open>
  On every run, a path recorded in \<open>tempFilePath\<close> at the end of the process names a
  file that is still on disk: the paths that record it all leave through
  \<^verbatim>\<open>process.exit\<close> inside the \<^verbatim>\<open>try\<close> block.
\<close>

lemma temp_file_survives:
  assumes "tempFilePath (snd (run w)) = Some p"
  shows "files (snd (run w)) p \<noteq> None"
proof -
  obtain r st where m: "main w (init_state w) = (r, st)"
    by (cases "main w (init_state w)")
  note mr = main_result[OF m]
  show ?thesis
  proof (cases r)
    case (Throw e)
    with m mr assms show ?thesis
      by (simp add: run_def try_catch_def main_catch_def bind_def cleanup_no_temp_file
            outputError_def console_log_def process_exit_def)
  next
    case (Exit c)
    with m mr assms show ?thesis
      by (simp add: run_def try_catch_def)
  next
    case (Return u)
    with mr show ?thesis by simp
  qed
qed

section \<open>The claims\<close>

subsection \<open>C1: the temporary file after the run\<close>

text \<open>
  C1 states that on every terminal path the temporary download file is deleted before
  the process exits. The run in which every stage succeeds shows otherwise: the
  transcript is printed, the process exits with code 0 from inside the \<^verbatim>\<open>try\<close>
  block, the \<^verbatim>\<open>finally\<close> block with \<open>cleanup\<close> is never reached, and the file that
  was not on disk before the run is on disk after it.
\<close>

theorem C1_temp_file_left_behind:
  "fst (run world_ok) = 0
   \<and> stdout (snd (run world_ok)) = [Line ''hello world'']
   \<and> initial_files world_ok ''/tmp/gemini-analyze-video/vaam-42.mp4'' = None
   \<and> tempFilePath (snd (run world_ok)) = Some ''/tmp/gemini-analyze-video/vaam-42.mp4''
   \<and> files (snd (run world_ok)) ''/tmp/gemini-analyze-video/vaam-42.mp4'' = Some [1, 2, 3]"
  by (simp add: run_defs world_defs filePath_def fileName_def TEMP_DIR_def join_def show_nat_42)

subsection \<open>C2: a missing credential\<close>

text \<open>
  C2 states that a run with a positional argument and no \<^verbatim>\<open>GEMINI_API_KEY\<close> reports
  \<open>MISSING_API_KEY\<close> whether or not the URL is well formed. The URL is checked first:
  with the argument \<^verbatim>\<open>not-a-url\<close> and no key, the one error reported is \<open>INVALID_URL\<close>.
\<close>

theorem C2_malformed_url_counterexample:
  "positionalArgs (argv world_no_key_bad_url) = [''not-a-url'']
   \<and> GEMINI_API_KEY world_no_key_bad_url = None
   \<and> fst (run world_no_key_bad_url) = 1
   \<and> error_codes (stdout (snd (run world_no_key_bad_url))) = [INVALID_URL]"
  by (simp add: run_defs world_defs)

text \<open>
  C2 as amended: when the command line has no help flag, its first positional argument
  matches the share-link pattern and \<^verbatim>\<open>GEMINI_API_KEY\<close> is unset, the run reports the
  one error \<open>MISSING_API_KEY\<close> and exits with code 1.
\<close>

theorem C2_missing_api_key:
  assumes "\<not> helpFlag (argv w)"
    and "first_arg (positionalArgs (argv w)) = Some vaamUrl"
    and "VAAM_URL_PATTERN_test vaamUrl"
    and "GEMINI_API_KEY w = None"
  shows "fst (run w) = 1 \<and> error_codes (stdout (snd (run w))) = [MISSING_API_KEY]"
  using assms pattern_test_nonempty[OF assms(3)]
  by (simp add: run_def main_def control_defs io_defs truthy_def init_state_def
        exit_code_of_def Let_def)

text \<open>C2, witness: the share link of the manual with no key in the environment.\<close>

theorem C2_missing_api_key_witness:
  "\<not> helpFlag (argv world_no_key)
   \<and> first_arg (positionalArgs (argv world_no_key)) = Some ''https://app.vaam.io/share/abc123''
   \<and> VAAM_URL_PATTERN_test ''https://app.vaam.io/share/abc123''
   \<and> GEMINI_API_KEY world_no_key = None
   \<and> fst (run world_no_key) = 1
   \<and> error_codes (stdout (snd (run world_no_key))) = [MISSING_API_KEY]"
proof -
  have h1: "\<not> helpFlag (argv world_no_key)"
    by (simp add: helpFlag_def array_includes_def world_defs)
  have h2: "first_arg (positionalArgs (argv world_no_key))
              = Some ''https://app.vaam.io/share/abc123''"
    by (simp add: first_arg_def positionalArgs_def startsWith_def world_defs)
  have h3: "VAAM_URL_PATTERN_test ''https://app.vaam.io/share/abc123''"
    by (simp add: pattern_defs)
  have h4: "GEMINI_API_KEY world_no_key = None"
    by (simp add: world_defs)
  from C2_missing_api_key[OF h1 h2 h3 h4] h1 h2 h3 h4 show ?thesis
    by simp
qed

subsection \<open>C3: one error object per failing run\<close>

text \<open>
  C3 states that a failing run writes exactly one JSON error object. When the resolver
  answers with status 200 and the body \<^verbatim>\<open>null\<close>, \<open>extractVideoUrl\<close> writes a
  \<open>VIDEO_DOWNLOAD_FAILED\<close> object before it returns \<^verbatim>\<open>null\<close>, and \<open>main\<close> then
  writes the \<open>VIDEO_EXTRACTION_FAILED\<close> object: two objects, exit code 2.
\<close>

theorem C3_two_error_objects:
  "fst (run world_null_body) = 2
   \<and> error_codes (stdout (snd (run world_null_body)))
       = [VIDEO_DOWNLOAD_FAILED, VIDEO_EXTRACTION_FAILED]"
  by (simp add: run_defs world_defs)

subsection \<open>C4: the output of a successful run\<close>

text \<open>
  C4 states that when all four stages succeed standard output holds the transcript and
  nothing else. With \<^verbatim>\<open>--verbose\<close> the progress messages go to standard output too
  (\<open>log\<close> uses \<^verbatim>\<open>console.log\<close>): eight lines precede the transcript.
\<close>

theorem C4_verbose_counterexample:
  "fst (run world_verbose) = 0
   \<and> stdout (snd (run world_verbose)) =
       [Line ''Processing Vaam URL: https://app.vaam.io/share/abc123'',
        Line ''Fetching video URL from Vaam API...'',
        Line ''Video URL: https://cdn.example/v.mp4'',
        Line ''Downloading video to /tmp/gemini-analyze-video/vaam-42.mp4...'',
        Line ''Downloaded 0.00 MB'',
        Line ''Reading video file...'',
        Line ''Sending to Gemini for transcription...'',
        Line ''Transcription complete (11 characters)'',
        Line ''hello world'']
   \<and> stdout (snd (run world_verbose)) \<noteq> [Line ''hello world'']"
  by (simp add: run_defs world_defs filePath_def fileName_def TEMP_DIR_def join_def
        show_nat_42 show_nat_length_hello[simplified] fileSizeMB_three_bytes[simplified])

text \<open>
  C4 as amended: when the command line has neither a help flag nor a verbose flag and
  all four stages succeed (the link matches and the credential is set, the resolver
  answers with an object from which a URL is selected, the download is fetched and
  written, the model returns a text), standard output consists of the transcript only
  and the process exits with code 0.
\<close>

theorem C4_transcript_only:
  assumes "\<not> helpFlag (argv w)" and "\<not> verboseFlag (argv w)"
    and "first_arg (positionalArgs (argv w)) = Some vaamUrl"
    and "GEMINI_API_KEY w = Some apiKey" and "apiKey \<noteq> []"
    and "resolver_answers w vaamUrl d" and "selectMediaUrl d = Some videoUrl"
    and "mkdir w (TEMP_DIR w) = Inr ()"
    and "fetch w videoUrl = Inr response" and "ok response"
    and "arrayBuffer response = Inr buffer"
    and "Bun_write w (filePath w) buffer = Inr ()"
    and "generateContent w apiKey buffer = Inr transcription"
  shows "fst (run w) = 0 \<and> stdout (snd (run w)) = [Line transcription]"
proof -
  have t: "VAAM_URL_PATTERN_test vaamUrl"
    by (rule resolver_answers_test[OF assms(6)])
  have mt: "main_try w vaamUrl apiKey (init_state w) =
           (Exit 0, (init_state w)\<lparr>tempFilePath := Some (filePath w),
                       stdout := stdout (init_state w) @ [Line transcription],
                       files := (files (init_state w))(filePath w \<mapsto> buffer)\<rparr>)"
    by (rule main_try_quiet[OF _ assms(6-13)]) (simp add: init_state_def)
  show ?thesis
    using assms(1-5) t pattern_test_nonempty[OF t] mt
    by (simp add: run_def main_def bind_def try_catch_def try_finally_def truthy_def
          log_quiet init_state_def exit_code_of_def Let_def)
qed

text \<open>C4, witness: the run of \<open>world_ok\<close>, the example of the specification.\<close>

theorem C4_transcript_only_witness:
  "\<not> helpFlag (argv world_ok) \<and> \<not> verboseFlag (argv world_ok)
   \<and> first_arg (positionalArgs (argv world_ok)) = Some ''https://app.vaam.io/share/abc123''
   \<and> GEMINI_API_KEY world_ok = Some ''key''
   \<and> resolver_answers world_ok ''https://app.vaam.io/share/abc123''
         \<lparr>mp4 = Some ''https://cdn.example/v.mp4'', webm = None, hls = None\<rparr>
   \<and> fst (run world_ok) = 0
   \<and> stdout (snd (run world_ok)) = [Line ''hello world'']"
proof -
  let ?url = "''https://app.vaam.io/share/abc123''"
  let ?d = "\<lparr>mp4 = Some ''https://cdn.example/v.mp4'', webm = None, hls = None\<rparr>"
  have h1: "\<not> helpFlag (argv world_ok)" and h2: "\<not> verboseFlag (argv world_ok)"
    by (simp_all add: helpFlag_def verboseFlag_def array_includes_def world_defs)
  have h3: "first_arg (positionalArgs (argv world_ok)) = Some ?url"
    by (simp add: first_arg_def positionalArgs_def startsWith_def world_defs)
  have h4: "GEMINI_API_KEY world_ok = Some ''key''" and h5: "''key'' \<noteq> []"
    by (simp_all add: world_defs)
  have h6: "resolver_answers world_ok ?url ?d"
    by (simp add: resolver_answers_def extractCaptureId_def pattern_defs world_defs)
  have h7: "selectMediaUrl ?d = Some ''https://cdn.example/v.mp4''"
    by (simp add: selectMediaUrl_def js_or_def truthy_def)
  have h8: "mkdir world_ok (TEMP_DIR world_ok) = Inr ()"
    by (simp add: world_defs)
  have h9: "fetch world_ok ''https://cdn.example/v.mp4'' = Inr (response_200 (Object ?d))"
    and h10: "ok (response_200 (Object ?d))"
    and h11: "arrayBuffer (response_200 (Object ?d)) = Inr [1, 2, 3]"
    by (simp_all add: world_defs)
  have h12: "Bun_write world_ok (filePath world_ok) [1, 2, 3] = Inr ()"
    and h13: "generateContent world_ok ''key'' [1, 2, 3] = Inr ''hello world''"
    by (simp_all add: world_ok_def)
  from C4_transcript_only[OF h1 h2 h3 h4 h5 h6 h7 h8 h9 h10 h11 h12 h13] h1 h2 h3 h4 h6
  show ?thesis by simp
qed

subsection \<open>C5: strings that are not share links\<close>

text \<open>
  C5 states that every string that does not match the pattern, given as the argument,
  is reported as \<open>INVALID_URL\<close>. A string that starts with a dash is taken for a flag
  and the empty string is falsy: both fail the pattern, and both are reported as
  \<open>MISSING_ARGUMENT\<close>.
\<close>

theorem C5_dash_and_empty_counterexample:
  "argv world_dash_arg = [''-x'']
   \<and> \<not> VAAM_URL_PATTERN_test ''-x''
   \<and> error_codes (stdout (snd (run world_dash_arg))) = [MISSING_ARGUMENT]
   \<and> argv world_empty_arg = [[]]
   \<and> \<not> VAAM_URL_PATTERN_test []
   \<and> error_codes (stdout (snd (run world_empty_arg))) = [MISSING_ARGUMENT]"
  by (simp add: run_defs world_defs)

text \<open>
  C5 as amended: for every string that is not empty, does not start with a dash and
  does not match the pattern \<^verbatim>\<open>https://app.vaam.io/share/[id]\<close>, running the tool with
  that string as its only argument reports the one error \<open>INVALID_URL\<close> and exits with
  code 1.
\<close>

theorem C5_invalid_url:
  assumes "argv w = [s]" and "s \<noteq> []" and "\<not> startsWith s ''-''"
    and "\<not> VAAM_URL_PATTERN_test s"
  shows "fst (run w) = 1 \<and> error_codes (stdout (snd (run w))) = [INVALID_URL]"
  using assms helpFlag_single[OF assms(3)] positionalArgs_single[OF assms(3)]
  by (simp add: run_def main_def control_defs io_defs first_arg_def truthy_def
        init_state_def exit_code_of_def Let_def)

text \<open>C5, witness: a link to another host.\<close>

theorem C5_invalid_url_witness:
  "argv world_bad_url = [''http://example.com/video'']
   \<and> ''http://example.com/video'' \<noteq> []
   \<and> \<not> startsWith ''http://example.com/video'' ''-''
   \<and> \<not> VAAM_URL_PATTERN_test ''http://example.com/video''
   \<and> fst (run world_bad_url) = 1
   \<and> error_codes (stdout (snd (run world_bad_url))) = [INVALID_URL]"
proof -
  have h1: "argv world_bad_url = [''http://example.com/video'']"
    by (simp add: world_defs)
  have h2: "''http://example.com/video'' \<noteq> []"
    by simp
  have h3: "\<not> startsWith ''http://example.com/video'' ''-''"
    by (simp add: startsWith_def)
  have h4: "\<not> VAAM_URL_PATTERN_test ''http://example.com/video''"
    by (simp add: pattern_defs)
  from C5_invalid_url[OF h1 h2 h3 h4] h1 h3 h4 show ?thesis
    by simp
qed

subsection \<open>C6: the priority order mp4, webm, hls\<close>

text \<open>
  C6 states that the selected media URL is the first present field in the order mp4,
  webm, hls. A field that is present with the empty string is passed over by
  \<^verbatim>\<open>||\<close>: for the payload with an empty \<^verbatim>\<open>mp4\<close> and a WebM URL the stage returns the
  WebM URL, while the first present field is \<^verbatim>\<open>mp4\<close>.
\<close>

theorem C6_empty_field_counterexample:
  "resolver_answers world_empty_mp4 ''https://app.vaam.io/share/abc123'' descriptor_empty_mp4
   \<and> fst (extractVideoUrl world_empty_mp4 ''https://app.vaam.io/share/abc123''
             (init_state world_empty_mp4))
       = Return (Some ''https://cdn.example/v.webm'')
   \<and> spec_first_present descriptor_empty_mp4 = Some []"
  by (simp add: resolver_answers_def spec_first_present_def init_state_def run_defs world_defs)

text \<open>
  C6 as amended: for every resolver response whose present fields are non-empty
  strings, the URL that \<open>extractVideoUrl\<close> returns is the first present field in the
  order mp4, webm, hls (and none when no field is present), for all eight combinations
  of present and absent fields; in particular a response with only \<^verbatim>\<open>hls\<close> yields the
  HLS URL.
\<close>

theorem C6_first_present:
  assumes "resolver_answers w vaamUrl d"
    and "mp4 d \<noteq> Some []" and "webm d \<noteq> Some []" and "hls d \<noteq> Some []"
  shows "fst (extractVideoUrl w vaamUrl st) = Return (spec_first_present d)"
  using extractVideoUrl_answer[OF assms(1)] selectMediaUrl_present[OF assms(2-4)]
  by simp

text \<open>C6, witness: a response that offers HLS only.\<close>

theorem C6_first_present_witness:
  "resolver_answers world_hls_only ''https://app.vaam.io/share/abc123'' descriptor_hls_only
   \<and> mp4 descriptor_hls_only \<noteq> Some []
   \<and> webm descriptor_hls_only \<noteq> Some []
   \<and> hls descriptor_hls_only \<noteq> Some []
   \<and> fst (extractVideoUrl world_hls_only ''https://app.vaam.io/share/abc123''
             (init_state world_hls_only))
       = Return (Some ''https://cdn.example/v.m3u8'')"
proof -
  have h1: "resolver_answers world_hls_only ''https://app.vaam.io/share/abc123''
              descriptor_hls_only"
    by (simp add: resolver_answers_def extractCaptureId_def pattern_defs world_defs)
  have h2: "mp4 descriptor_hls_only \<noteq> Some []"
    and h3: "webm descriptor_hls_only \<noteq> Some []"
    and h4: "hls descriptor_hls_only \<noteq> Some []"
    by (simp_all add: descriptor_hls_only_def)
  have "spec_first_present descriptor_hls_only = Some ''https://cdn.example/v.m3u8''"
    by (simp add: spec_first_present_def descriptor_hls_only_def)
  with C6_first_present[OF h1 h2 h3 h4, of "init_state world_hls_only"] h1 h2 h3 h4
  show ?thesis by simp
qed

subsection \<open>C7: a resolver that cannot be reached\<close>

text \<open>
  C7 states that a failing resolver request is reported as \<open>VIDEO_EXTRACTION_FAILED\<close>.
  The call of \<open>extractVideoUrl\<close> is the one stage of \<open>main\<close> without a
  \<^verbatim>\<open>catch\<close> of its own: when \<^verbatim>\<open>fetch\<close> throws, the error reaches the handler of
  \<^verbatim>\<open>main().catch\<close> and is reported as \<open>TRANSCRIPTION_FAILED\<close>, with exit code 2.
  (For a non-success status and for a response without a URL the claim holds:
  \<open>extraction_failure_reported\<close>.)
\<close>

theorem C7_fetch_failure_misreported:
  "fst (run world_fetch_fails) = 2
   \<and> stdout (snd (run world_fetch_fails)) =
       [Json (createError TRANSCRIPTION_FAILED ''Unexpected error''
          ''Error: Unable to connect''
          ''This is an unexpected error. Check the error details and try again.'')]
   \<and> error_codes (stdout (snd (run world_fetch_fails))) = [TRANSCRIPTION_FAILED]"
  by (simp add: run_defs world_defs)

subsection \<open>C8: the top-level handler\<close>



subsection \<open>C9: arguments that start with a dash\<close>

text \<open>
  C9: when every argument of the command line starts with a dash and none is
  \<^verbatim>\<open>--help\<close> or \<^verbatim>\<open>-h\<close>, all arguments are filtered out as flags, and the run reports
  the one error \<open>MISSING_ARGUMENT\<close> with exit code 1 (so never \<open>INVALID_URL\<close>).
\<close>

theorem C9_flags_only:
  assumes "list_all (\<lambda>arg. startsWith arg ''-'') (argv w)" and "\<not> helpFlag (argv w)"
  shows "positionalArgs (argv w) = []
       \<and> fst (run w) = 1
       \<and> error_codes (stdout (snd (run w))) = [MISSING_ARGUMENT]"
  using assms(2) positionalArgs_flags_only[OF assms(1)]
  by (simp add: run_def main_def control_defs io_defs first_arg_def truthy_def
        init_state_def exit_code_of_def Let_def)

text \<open>C9, witness: the command line \<^verbatim>\<open>--verbose -x\<close>.\<close>

theorem C9_flags_only_witness:
  "list_all (\<lambda>arg. startsWith arg ''-'') (argv world_flags_only)
   \<and> \<not> helpFlag (argv world_flags_only)
   \<and> positionalArgs (argv world_flags_only) = []
   \<and> fst (run world_flags_only) = 1
   \<and> error_codes (stdout (snd (run world_flags_only))) = [MISSING_ARGUMENT]"
proof -
  have h1: "list_all (\<lambda>arg. startsWith arg ''-'') (argv world_flags_only)"
    by (simp add: startsWith_def world_defs)
  have h2: "\<not> helpFlag (argv world_flags_only)"
    by (simp add: helpFlag_def array_includes_def world_defs)
  from C9_flags_only[OF h1 h2] h1 h2 show ?thesis
    by simp
qed

subsection \<open>C10: fields that are present and empty\<close>

lemma selectMediaUrl_without_empty_fields:
  "selectMediaUrl d = spec_first_present (without_empty_fields d)"
  by (auto simp: selectMediaUrl_def spec_first_present_def without_empty_fields_def
        absent_if_empty_def js_or_def truthy_def split: option.splits)

text \<open>
  C10: a field of the resolver's object that holds the empty string is treated as
  absent. For every response, \<open>extractVideoUrl\<close> returns the first present field, in
  the order mp4, webm, hls, of the payload with its empty fields removed. In
  particular: with an empty \<^verbatim>\<open>mp4\<close> it returns the WebM URL when there is one; with
  an empty \<^verbatim>\<open>mp4\<close> and an empty or absent \<^verbatim>\<open>webm\<close>, or with an empty \<^verbatim>\<open>webm\<close> and
  an empty or absent \<^verbatim>\<open>mp4\<close>, it returns the HLS URL when there is one; and when all
  three fields are empty strings it returns \<^verbatim>\<open>null\<close>, its signal of extraction
  failure. The result is also the selection of the code on the payload without the
  empty field.
\<close>

theorem C10_empty_field_skipped:
  assumes "resolver_answers w vaamUrl d"
  shows "fst (extractVideoUrl w vaamUrl st)
           = Return (spec_first_present (without_empty_fields d))
       \<and> (mp4 d = Some [] \<and> webm d = Some u \<and> u \<noteq> [] \<longrightarrow>
            fst (extractVideoUrl w vaamUrl st) = Return (Some u))
       \<and> (mp4 d = Some [] \<and> (webm d = None \<or> webm d = Some []) \<and> hls d = Some u \<and> u \<noteq> [] \<longrightarrow>
            fst (extractVideoUrl w vaamUrl st) = Return (Some u))
       \<and> (webm d = Some [] \<and> (mp4 d = None \<or> mp4 d = Some []) \<and> hls d = Some u \<and> u \<noteq> [] \<longrightarrow>
            fst (extractVideoUrl w vaamUrl st) = Return (Some u))
       \<and> (webm d = Some [] \<and> mp4 d = Some u \<and> u \<noteq> [] \<longrightarrow>
            fst (extractVideoUrl w vaamUrl st) = Return (Some u))
       \<and> (mp4 d = Some [] \<and> webm d = Some [] \<and> hls d = Some [] \<longrightarrow>
            fst (extractVideoUrl w vaamUrl st) = Return None)
       \<and> (mp4 d = Some [] \<longrightarrow>
            fst (extractVideoUrl w vaamUrl st) = Return (selectMediaUrl (d\<lparr>mp4 := None\<rparr>)))
       \<and> (webm d = Some [] \<longrightarrow>
            fst (extractVideoUrl w vaamUrl st) = Return (selectMediaUrl (d\<lparr>webm := None\<rparr>)))"
proof -
  have r: "fst (extractVideoUrl w vaamUrl st) = Return (selectMediaUrl d)"
    using extractVideoUrl_answer[OF assms, of st] by simp
  have "selectMediaUrl d = spec_first_present (without_empty_fields d)"
    by (rule selectMediaUrl_without_empty_fields)
  moreover have "mp4 d = Some [] \<and> webm d = Some u \<and> u \<noteq> [] \<longrightarrow> selectMediaUrl d = Some u"
    by (simp add: selectMediaUrl_def js_or_def truthy_def)
  moreover have "mp4 d = Some [] \<and> (webm d = None \<or> webm d = Some []) \<and> hls d = Some u \<and> u \<noteq> []
      \<longrightarrow> selectMediaUrl d = Some u"
    by (auto simp: selectMediaUrl_def js_or_def truthy_def)
  moreover have "webm d = Some [] \<and> (mp4 d = None \<or> mp4 d = Some []) \<and> hls d = Some u \<and> u \<noteq> []
      \<longrightarrow> selectMediaUrl d = Some u"
    by (auto simp: selectMediaUrl_def js_or_def truthy_def)
  moreover have "webm d = Some [] \<and> mp4 d = Some u \<and> u \<noteq> [] \<longrightarrow> selectMediaUrl d = Some u"
    by (simp add: selectMediaUrl_def js_or_def truthy_def)
  moreover have "mp4 d = Some [] \<and> webm d = Some [] \<and> hls d = Some [] \<longrightarrow> selectMediaUrl d = None"
    by (simp add: selectMediaUrl_def js_or_def truthy_def)
  moreover have "mp4 d = Some [] \<longrightarrow> selectMediaUrl d = selectMediaUrl (d\<lparr>mp4 := None\<rparr>)"
    by (simp add: selectMediaUrl_def js_or_def truthy_def)
  moreover have "webm d = Some [] \<longrightarrow> selectMediaUrl d = selectMediaUrl (d\<lparr>webm := None\<rparr>)"
    by (simp add: selectMediaUrl_def js_or_def truthy_def)
  ultimately show ?thesis
    unfolding r by simp
qed

text \<open>
  C10, witness: with an empty \<^verbatim>\<open>mp4\<close> beside a WebM and an HLS URL the stage returns
  the WebM URL; with empty \<^verbatim>\<open>mp4\<close> and \<^verbatim>\<open>webm\<close> it returns the HLS URL; with all
  three fields empty it returns \<^verbatim>\<open>null\<close> and the run ends with
  \<open>VIDEO_EXTRACTION_FAILED\<close>.
\<close>

theorem C10_empty_field_skipped_witness:
  "resolver_answers world_webm_after_empty ''https://app.vaam.io/share/abc123''
     descriptor_webm_after_empty
   \<and> mp4 descriptor_webm_after_empty = Some []
   \<and> webm descriptor_webm_after_empty = Some ''https://cdn.example/v.webm''
   \<and> fst (extractVideoUrl world_webm_after_empty ''https://app.vaam.io/share/abc123''
             (init_state world_webm_after_empty))
       = Return (Some ''https://cdn.example/v.webm'')
   \<and> resolver_answers world_hls_after_empty ''https://app.vaam.io/share/abc123''
         descriptor_hls_after_empty
   \<and> mp4 descriptor_hls_after_empty = Some []
   \<and> webm descriptor_hls_after_empty = Some []
   \<and> hls descriptor_hls_after_empty = Some ''https://cdn.example/v.m3u8''
   \<and> fst (extractVideoUrl world_hls_after_empty ''https://app.vaam.io/share/abc123''
             (init_state world_hls_after_empty))
       = Return (Some ''https://cdn.example/v.m3u8'')
   \<and> resolver_answers world_all_empty ''https://app.vaam.io/share/abc123'' descriptor_all_empty
   \<and> mp4 descriptor_all_empty = Some []
   \<and> webm descriptor_all_empty = Some []
   \<and> hls descriptor_all_empty = Some []
   \<and> fst (extractVideoUrl world_all_empty ''https://app.vaam.io/share/abc123''
             (init_state world_all_empty)) = Return None
   \<and> fst (run world_all_empty) = 2
   \<and> error_codes (stdout (snd (run world_all_empty))) = [VIDEO_EXTRACTION_FAILED]"
proof -
  let ?url = "''https://app.vaam.io/share/abc123''"
  have h1: "resolver_answers world_webm_after_empty ?url descriptor_webm_after_empty"
    and h2: "resolver_answers world_hls_after_empty ?url descriptor_hls_after_empty"
    and h3: "resolver_answers world_all_empty ?url descriptor_all_empty"
    by (simp_all add: resolver_answers_def extractCaptureId_def pattern_defs world_defs)
  have e1: "mp4 descriptor_webm_after_empty = Some []"
    "webm descriptor_webm_after_empty = Some ''https://cdn.example/v.webm''"
    "''https://cdn.example/v.webm'' \<noteq> []"
    by (simp_all add: descriptor_webm_after_empty_def)
  have e2: "mp4 descriptor_hls_after_empty = Some []"
    "webm descriptor_hls_after_empty = Some []"
    "hls descriptor_hls_after_empty = Some ''https://cdn.example/v.m3u8''"
    "''https://cdn.example/v.m3u8'' \<noteq> []"
    by (simp_all add: descriptor_hls_after_empty_def)
  have e3: "mp4 descriptor_all_empty = Some []" "webm descriptor_all_empty = Some []"
    "hls descriptor_all_empty = Some []"
    by (simp_all add: descriptor_all_empty_def)
  from C10_empty_field_skipped[OF h1, where u = "''https://cdn.example/v.webm''"
      and st = "init_state world_webm_after_empty"] e1
  have x1: "fst (extractVideoUrl world_webm_after_empty ?url (init_state world_webm_after_empty))
              = Return (Some ''https://cdn.example/v.webm'')"
    by blast
  from C10_empty_field_skipped[OF h2, where u = "''https://cdn.example/v.m3u8''"
      and st = "init_state world_hls_after_empty"] e2
  have x2: "fst (extractVideoUrl world_hls_after_empty ?url (init_state world_hls_after_empty))
              = Return (Some ''https://cdn.example/v.m3u8'')"
    by blast
  from C10_empty_field_skipped[OF h3, where u = "[]"
      and st = "init_state world_all_empty"] e3
  have x3: "fst (extractVideoUrl world_all_empty ?url (init_state world_all_empty)) = Return None"
    by blast
  have r: "fst (run world_all_empty) = 2
     \<and> error_codes (stdout (snd (run world_all_empty))) = [VIDEO_EXTRACTION_FAILED]"
    by (simp add: run_defs world_defs)
  from x1 x2 x3 h1 h2 h3 e1 e2 e3 r show ?thesis
    by simp
qed

end
